theory Spec2Isabelle
  imports Complex_Main
begin

section \<open>Exceptions\<close>

text \<open>
  A Python exception is a value: its class and the text that \<^verbatim>\<open>str(e)\<close> gives.
  \<open>Exception\<close> stands for any other instance of \<^verbatim>\<open>Exception\<close> that a collaborator
  (the HTTP client, the model runner, the session service) raises.
\<close>

datatype error =
    ValueError string
  | TypeError string
  | AttributeError string
  | UnboundLocalError string
  | ValidationError string
  | Exception string

fun str_error :: "error \<Rightarrow> string" where
  "str_error (ValueError m) = m"
| "str_error (TypeError m) = m"
| "str_error (AttributeError m) = m"
| "str_error (UnboundLocalError m) = m"
| "str_error (ValidationError m) = m"
| "str_error (Exception m) = m"

section \<open>Content parts (travel\_agent/agent\_executor.py)\<close>

text \<open>
  The external (A2A) part is a union of three classes; a file is given by uri or by its
  content. \<open>mime_type\<close> and \<open>name\<close> are optional in the protocol types. Byte content is a
  \<open>string\<close> (a list of 8-bit characters).
\<close>

datatype a2a_file =
    FileWithUri (uri: string) (mime_type: "string option") (name: "string option")
  | FileWithBytes (bytes: string) (mime_type: "string option") (name: "string option")

datatype a2a_part =
    TextPart string
  | FilePart a2a_file
  | DataPart "(string \<times> string) list"

text \<open>
  The internal (GenAI) part is one class whose fields are all optional. \<open>function_call\<close>
  stands for the fields the converters never read.
\<close>

record file_data =
  file_uri :: "string option"
  fd_mime_type :: "string option"

record blob =
  data :: "string option"
  blob_mime_type :: "string option"

record genai_part =
  part_text :: "string option"
  part_file_data :: "file_data option"
  part_inline_data :: "blob option"
  part_function_call :: "string option"

definition Part :: genai_part where
  "Part = \<lparr>part_text = None, part_file_data = None, part_inline_data = None,
           part_function_call = None\<rparr>"

text \<open>\<^verbatim>\<open>_convert_a2a_part_to_genai\<close>: the chain of \<^verbatim>\<open>isinstance\<close> tests, then the raise.\<close>

fun convert_a2a_part_to_genai :: "a2a_part \<Rightarrow> error + genai_part" where
  "convert_a2a_part_to_genai (TextPart t) = Inr (Part\<lparr>part_text := Some t\<rparr>)"
| "convert_a2a_part_to_genai (FilePart (FileWithUri u m n)) =
     Inr (Part\<lparr>part_file_data := Some \<lparr>file_uri = Some u, fd_mime_type = m\<rparr>\<rparr>)"
| "convert_a2a_part_to_genai (FilePart (FileWithBytes b m n)) =
     Inr (Part\<lparr>part_inline_data := Some \<lparr>data = Some b, blob_mime_type = m\<rparr>\<rparr>)"
| "convert_a2a_part_to_genai (DataPart d) =
     Inl (ValueError ''Unsupported part type: <class 'a2a.types.DataPart'>'')"

text \<open>
  Python truthiness of the three fields the second converter tests: a string is true when
  it is not empty, an object of a model class is always true, \<^verbatim>\<open>None\<close> is false.
\<close>

definition truthy_text :: "string option \<Rightarrow> bool" where
  "truthy_text t = (case t of None \<Rightarrow> False | Some s \<Rightarrow> s \<noteq> [])"

definition truthy_obj :: "'a option \<Rightarrow> bool" where
  "truthy_obj x = (case x of None \<Rightarrow> False | Some _ \<Rightarrow> True)"

text \<open>
  The text of the part in the error message (\<^verbatim>\<open>f"{part}"\<close>), field by field; \<open>sq\<close>
  puts a text between single quotes.
\<close>

definition sq :: "string \<Rightarrow> string" where
  "sq s = CHR 0x27 # s @ [CHR 0x27]"

definition repr_opt :: "string option \<Rightarrow> string" where
  "repr_opt x = (case x of None \<Rightarrow> ''None'' | Some s \<Rightarrow> sq s)"

definition str_genai_part :: "genai_part \<Rightarrow> string" where
  "str_genai_part p =
     ''text='' @ repr_opt (part_text p) @
     '' file_data='' @ (case part_file_data p of None \<Rightarrow> ''None''
        | Some f \<Rightarrow> ''FileData(file_uri='' @ repr_opt (file_uri f) @
            '', mime_type='' @ repr_opt (fd_mime_type f) @ '')'') @
     '' inline_data='' @ (case part_inline_data p of None \<Rightarrow> ''None''
        | Some b \<Rightarrow> ''Blob(data='' @ repr_opt (data b) @
            '', mime_type='' @ repr_opt (blob_mime_type b) @ '')'') @
     '' function_call='' @ repr_opt (part_function_call p)"

text \<open>
  \<^verbatim>\<open>_convert_genai_part_to_a2a\<close>: the three truthiness tests in the source's order
  (\<^verbatim>\<open>if part.text:\<close> holds for a text that is present and not empty, the other two
  for an object that is present), then the raise. The protocol classes require \<open>uri\<close> and
  \<open>bytes\<close>, so building one from an absent value is a validation error.
\<close>

definition convert_genai_part_to_a2a :: "genai_part \<Rightarrow> error + a2a_part" where
  "convert_genai_part_to_a2a p =
     (case part_text p of
        Some (c # cs) \<Rightarrow> Inr (TextPart (c # cs))
      | _ \<Rightarrow>
        (case part_file_data p of
           Some f \<Rightarrow>
             (case file_uri f of
                Some u \<Rightarrow> Inr (FilePart (FileWithUri u (fd_mime_type f) None))
              | None \<Rightarrow>
                  Inl (ValidationError ''FileWithUri: uri: Input should be a valid string''))
         | None \<Rightarrow>
             (case part_inline_data p of
                Some b \<Rightarrow>
                  (case data b of
                     Some d \<Rightarrow> Inr (FilePart (FileWithBytes d (blob_mime_type b) None))
                   | None \<Rightarrow>
                       Inl (ValidationError
                              ''FileWithBytes: bytes: Input should be a valid string''))
              | None \<Rightarrow>
                  Inl (ValueError (''Unsupported GenAI part: '' @ str_genai_part p)))))"

text \<open>External to internal and back: the second converter runs on what the first returns.\<close>

definition a2a_roundtrip :: "a2a_part \<Rightarrow> error + a2a_part" where
  "a2a_roundtrip p =
     (case convert_a2a_part_to_genai p of
        Inl e \<Rightarrow> Inl e
      | Inr g \<Rightarrow> convert_genai_part_to_a2a g)"

section \<open>Session state and Python values (host\_agent/routing\_agent.py)\<close>

text \<open>
  The session state maps keys to arbitrary Python values. \<open>PDict\<close> keeps the entries of a
  dictionary in insertion order; \<open>PFloat\<close> holds the number a float denotes.
\<close>

datatype pyval =
    PNone
  | PBool bool
  | PInt int
  | PFloat real
  | PStr string
  | PList "pyval list"
  | PDict "(string \<times> pyval) list"

type_synonym state = "string \<rightharpoonup> pyval"

text \<open>Truthiness, as \<^verbatim>\<open>if x:\<close> tests it.\<close>

fun truthy :: "pyval \<Rightarrow> bool" where
  "truthy PNone = False"
| "truthy (PBool b) = b"
| "truthy (PInt i) = (i \<noteq> 0)"
| "truthy (PFloat x) = (x \<noteq> 0)"
| "truthy (PStr s) = (s \<noteq> [])"
| "truthy (PList xs) = (xs \<noteq> [])"
| "truthy (PDict kvs) = (kvs \<noteq> [])"

text \<open>\<^verbatim>\<open>state.get(key)\<close>: the value, or \<^verbatim>\<open>None\<close> for a missing key.\<close>

definition state_get :: "state \<Rightarrow> string \<Rightarrow> pyval" where
  "state_get st k = (case st k of None \<Rightarrow> PNone | Some v \<Rightarrow> v)"

subsection \<open>Strings\<close>

text \<open>
  \<^verbatim>\<open>sub in s\<close> on strings: \<open>sub\<close> occurs in \<open>s\<close> as a contiguous block.
\<close>

fun starts_with :: "string \<Rightarrow> string \<Rightarrow> bool" where
  "starts_with s [] = True"
| "starts_with [] (c # cs) = False"
| "starts_with (d # ds) (c # cs) = (d = c \<and> starts_with ds cs)"

fun str_contains :: "string \<Rightarrow> string \<Rightarrow> bool" where
  "str_contains [] sub = (sub = [])"
| "str_contains (c # cs) sub = (starts_with (c # cs) sub \<or> str_contains cs sub)"

text \<open>
  \<^verbatim>\<open>str.lower()\<close> on the letters \<open>A\<close> to \<open>Z\<close>; every other character is kept.
  \<^verbatim>\<open>str.replace(a, b)\<close> for single characters.
\<close>

definition lower_char :: "char \<Rightarrow> char" where
  "lower_char c =
     (case map_of (zip ''ABCDEFGHIJKLMNOPQRSTUVWXYZ'' ''abcdefghijklmnopqrstuvwxyz'') c of
        Some d \<Rightarrow> d
      | None \<Rightarrow> c)"

definition lower :: "string \<Rightarrow> string" where
  "lower s = map lower_char s"

definition replace_char :: "char \<Rightarrow> char \<Rightarrow> string \<Rightarrow> string" where
  "replace_char a b s = map (\<lambda>c. if c = a then b else c) s"

subsection \<open>Messages, requests and responses\<close>

text \<open>
  \<^verbatim>\<open>params_data["message"]\<close>: the keys \<open>taskId\<close> and \<open>contextId\<close> are present only when
  they were assigned.
\<close>

record message =
  role :: string
  parts :: "(string \<times> string) list list"
  messageId :: pyval
  taskId :: "pyval option"
  contextId :: "pyval option"

record send_message_request =
  request_id :: pyval
  params :: message

text \<open>
  The response of the remote agent: an error response, or a success response whose result
  is a task or a plain message. The payload is the object's fields, \<open>PNone\<close> for a field
  that is not set.
\<close>

datatype send_result = Task pyval | Message pyval

datatype send_message_response =
    SendMessageSuccessResponse send_result
  | JSONRPCErrorResponse pyval

text \<open>
  \<^verbatim>\<open>model_dump(exclude_none=True)\<close>: the fields of the object as a dictionary, those set
  to \<^verbatim>\<open>None\<close> left out, nested objects likewise.
\<close>

fun exclude_none :: "pyval \<Rightarrow> pyval"
  and exclude_none_items :: "(string \<times> pyval) list \<Rightarrow> (string \<times> pyval) list"
  and exclude_none_list :: "pyval list \<Rightarrow> pyval list" where
  "exclude_none (PDict kvs) = PDict (exclude_none_items kvs)"
| "exclude_none (PList vs) = PList (exclude_none_list vs)"
| "exclude_none PNone = PNone"
| "exclude_none (PBool b) = PBool b"
| "exclude_none (PInt i) = PInt i"
| "exclude_none (PFloat x) = PFloat x"
| "exclude_none (PStr s) = PStr s"
| "exclude_none_items [] = []"
| "exclude_none_items ((k, v) # kvs) =
     (if v = PNone then exclude_none_items kvs
      else (k, exclude_none v) # exclude_none_items kvs)"
| "exclude_none_list [] = []"
| "exclude_none_list (v # vs) = exclude_none v # exclude_none_list vs"

subsection \<open>The routing agent and what surrounds it\<close>

text \<open>
  \<open>RemoteAgentConnections\<close> holds the card and the address of one remote agent. The
  directory maps agent names to connections; an entry may hold a false value, which the
  source tests for.
\<close>

record remote_agent_connection =
  card_name :: string
  agent_url :: string

text \<open>
  What \<open>send_message\<close> takes from outside the repository:
  \<^item> \<open>uuid4 n\<close> is the text of the \<open>n\<close>-th identifier \<^verbatim>\<open>str(uuid.uuid4())\<close> returns;
  \<^item> \<open>model_validate\<close> tells whether \<^verbatim>\<open>MessageSendParams.model_validate\<close> accepts the
    message (it raises otherwise);
  \<^item> \<open>remote_send\<close> is \<^verbatim>\<open>client.send_message\<close>: a response, or a raised exception;
  \<^item> \<open>trace_id\<close> is the current trace identifier, if any;
  \<^item> \<open>telemetry_delivered\<close> tells whether \<^verbatim>\<open>requests.post\<close> returned, rather than
    raising a \<^verbatim>\<open>RequestException\<close>;
  \<^item> \<open>elapsed_seconds\<close> is the value of \<^verbatim>\<open>round(time.time() - start_time, 2)\<close>; the
    floating-point arithmetic of the clock is not modelled.
\<close>

record routing_agent =
  remote_agent_connections :: "string \<rightharpoonup> remote_agent_connection option"
  uuid4 :: "nat \<Rightarrow> string"
  model_validate :: "message \<Rightarrow> bool"
  remote_send :: "remote_agent_connection \<Rightarrow> send_message_request
                    \<Rightarrow> error + send_message_response"
  trace_id :: "string option"
  telemetry_delivered :: bool
  elapsed_seconds :: pyval

text \<open>
  The effects of a call besides the session state: how many identifiers were drawn, and
  the network calls made, in order. A telemetry post is recorded with whether it was
  delivered.
\<close>

datatype network_call =
    RemoteSend remote_agent_connection send_message_request
  | TelemetryPost "(string \<times> pyval) list" bool

record effects =
  uuids_drawn :: nat
  network :: "network_call list"

type_synonym outcome = "(string \<times> pyval) list"

subsection \<open>\<open>RoutingAgent.send_message\<close>\<close>

text \<open>
  Lines 238 to 241: the context identifier of the state when the key is there, a new
  identifier otherwise. The new identifier is a local variable only.
\<close>

definition resolve_context_id :: "routing_agent \<Rightarrow> nat \<Rightarrow> state \<Rightarrow> pyval \<times> nat" where
  "resolve_context_id self n st =
     (case st ''context_id'' of
        Some v \<Rightarrow> (v, n)
      | None \<Rightarrow> (PStr (uuid4 self n), Suc n))"

text \<open>
  Lines 243 to 248: the message identifier carried in \<open>input_message_metadata\<close>, the empty
  string when there is none. \<^verbatim>\<open>metadata.update(**v)\<close> raises for a value that is not a
  mapping.
\<close>

definition input_message_id :: "state \<Rightarrow> error + pyval" where
  "input_message_id st =
     (case st ''input_message_metadata'' of
        None \<Rightarrow> Inr (PStr [])
      | Some (PDict md) \<Rightarrow>
          (case map_of md ''message_id'' of
             Some v \<Rightarrow> Inr v
           | None \<Rightarrow> Inr (PStr []))
      | Some _ \<Rightarrow> Inl (TypeError ''argument after ** must be a mapping''))"

text \<open>Lines 249 and 250: a new identifier when the one found is false.\<close>

definition resolve_message_id :: "routing_agent \<Rightarrow> nat \<Rightarrow> pyval \<Rightarrow> pyval \<times> nat" where
  "resolve_message_id self n found =
     (if truthy found then (found, n) else (PStr (uuid4 self n), Suc n))"

text \<open>Lines 252 to 264: the message, with the two optional keys.\<close>

definition params_data :: "string \<Rightarrow> pyval \<Rightarrow> pyval \<Rightarrow> pyval \<Rightarrow> message" where
  "params_data task message_id task_id context_id =
     \<lparr>role = ''user'',
      parts = [[(''type'', ''text''), (''text'', task)]],
      messageId = message_id,
      taskId = (if truthy task_id then Some task_id else None),
      contextId = (if truthy context_id then Some context_id else None)\<rparr>"

text \<open>
  Lines 224 to 274, up to the request that is about to be sent. The result is the raised
  exception, or the connection and the request; with it come the session state and the
  effects at that point. Line 236 reads the local variable \<open>params_data\<close>, which is
  assigned only at line 252: reaching line 236 raises \<open>UnboundLocalError\<close>.
\<close>

definition send_message_prepare ::
  "routing_agent \<Rightarrow> effects \<Rightarrow> string \<Rightarrow> string \<Rightarrow> state
     \<Rightarrow> (error + remote_agent_connection \<times> send_message_request) \<times> state \<times> effects" where
  "send_message_prepare self eff agent_name task st =
     (case remote_agent_connections self agent_name of
        None \<Rightarrow> (Inl (ValueError (''Agent '' @ agent_name @ '' not found'')), st, eff)
      | Some client \<Rightarrow>
          (let st1 = st(''active_agent'' \<mapsto> PStr agent_name) in
           case client of
             None \<Rightarrow>
               (Inl (ValueError (''Client not available for '' @ agent_name)), st1, eff)
           | Some conn \<Rightarrow>
               (let task_id = state_get st1 ''task_id'' in
                if truthy task_id \<and> PStr agent_name = state_get st1 ''active_agent'' then
                  (Inl (UnboundLocalError
                     ''cannot access local variable 'params_data' where it is not associated with a value''),
                   st1, eff)
                else
                  (let (context_id, n1) = resolve_context_id self (uuids_drawn eff) st1 in
                   case input_message_id st1 of
                     Inl e \<Rightarrow> (Inl e, st1, eff\<lparr>uuids_drawn := n1\<rparr>)
                   | Inr found \<Rightarrow>
                       (let (message_id, n2) = resolve_message_id self n1 found;
                            msg = params_data task message_id task_id context_id;
                            eff2 = eff\<lparr>uuids_drawn := n2\<rparr>
                        in if model_validate self msg then
                             (Inr (conn, \<lparr>request_id = message_id, params = msg\<rparr>), st1, eff2)
                           else
                             (Inl (ValidationError ''MessageSendParams''), st1, eff2))))))"

text \<open>Line 281: the test on the text of the exception, in lower case.\<close>

definition is_timeout :: "string \<Rightarrow> bool" where
  "is_timeout error_msg =
     (str_contains (lower error_msg) ''timeout'' \<or> str_contains (lower error_msg) ''timed out'')"

text \<open>Lines 299 to 305: the body of the telemetry post.\<close>

definition telemetry_payload :: "routing_agent \<Rightarrow> string \<Rightarrow> (string \<times> pyval) list" where
  "telemetry_payload self agent_name =
     [(''agent_name'',
         PStr (replace_char CHR ''&'' CHR ''_'' (replace_char CHR '' '' CHR ''_'' (lower agent_name)))),
      (''project_name'', PStr ''MakeEasyTravel''),
      (''trace_id'', (case trace_id self of None \<Rightarrow> PNone | Some t \<Rightarrow> PStr t)),
      (''processed_status'', PBool False)]"

text \<open>
  Lines 275 to 340: the remote call and the classification of what comes back. An exception
  of the remote call becomes an error outcome. The telemetry post follows a response; that
  it fails changes nothing (line 308).
\<close>

definition send_message_dispatch ::
  "routing_agent \<Rightarrow> effects \<Rightarrow> string \<Rightarrow> remote_agent_connection \<Rightarrow> send_message_request
     \<Rightarrow> outcome \<times> effects" where
  "send_message_dispatch self eff agent_name conn req =
     (let eff1 = eff\<lparr>network := network eff @ [RemoteSend conn req]\<rparr> in
      case remote_send self conn req of
        Inl e \<Rightarrow>
          (let error_msg = str_error e in
           if is_timeout error_msg then
             ([(''status'', PStr ''error''),
               (''message'', PStr (''Request to '' @ agent_name @
                  '' timed out. Please ensure the agent is running and try again.'')),
               (''agent_name'', PStr agent_name)], eff1)
           else
             ([(''status'', PStr ''error''),
               (''message'', PStr (''Failed to communicate with '' @ agent_name @ '': '' @
                  error_msg)),
               (''agent_name'', PStr agent_name)], eff1))
      | Inr send_response \<Rightarrow>
          (let eff2 = eff1\<lparr>network := network eff1 @
                        [TelemetryPost (telemetry_payload self agent_name)
                           (telemetry_delivered self)]\<rparr> in
           case send_response of
             JSONRPCErrorResponse err \<Rightarrow>
               ([(''status'', PStr ''error''),
                 (''message'', PStr (agent_name @ '' returned a non-success response'')),
                 (''agent_name'', PStr agent_name)], eff2)
           | SendMessageSuccessResponse (Message m) \<Rightarrow>
               ([(''status'', PStr ''error''),
                 (''message'', PStr (agent_name @ '' returned a non-task response'')),
                 (''agent_name'', PStr agent_name)], eff2)
           | SendMessageSuccessResponse (Task t) \<Rightarrow>
               ([(''status'', PStr ''success''),
                 (''agent_name'', PStr agent_name),
                 (''elapsed_seconds'', elapsed_seconds self),
                 (''task'', exclude_none t)], eff2)))"

text \<open>
  The whole of \<open>send_message\<close>: what it returns or raises, the session state it leaves and
  its effects.
\<close>

definition send_message ::
  "routing_agent \<Rightarrow> effects \<Rightarrow> string \<Rightarrow> string \<Rightarrow> state
     \<Rightarrow> (error + outcome) \<times> state \<times> effects" where
  "send_message self eff agent_name task st =
     (case send_message_prepare self eff agent_name task st of
        (Inl e, st1, eff1) \<Rightarrow> (Inl e, st1, eff1)
      | (Inr (conn, req), st1, eff1) \<Rightarrow>
          (let (out, eff2) = send_message_dispatch self eff1 agent_name conn req
           in (Inr out, st1, eff2)))"

section \<open>The streaming executor (travel\_agent/agent\_executor.py)\<close>

text \<open>
  An event of the model runner, as the loop reads it: the answers of
  \<^verbatim>\<open>is_final_response()\<close> and of \<^verbatim>\<open>get_function_calls()\<close> (whether the list is not
  empty), and the content, which may be absent, as may its list of parts.
\<close>

record content =
  content_parts :: "genai_part list option"

record event =
  is_final_response :: bool
  has_function_calls :: bool
  event_content :: "content option"

text \<open>
  The stream of \<^verbatim>\<open>runner.run_async\<close>: the events it yields, and how it ends, exhausted
  or by an exception.
\<close>

datatype stream_end = Exhausted | Raised error

text \<open>The calls made on the task updater, in order.\<close>

datatype task_state = submitted | working | completed | failed

datatype artifact_item = PartItem a2a_part | TextArtifact string string

datatype sink_call =
    Update_status task_state "a2a_part list option" bool
  | Add_artifact "artifact_item list"

text \<open>
  \<^verbatim>\<open>event.content.parts\<close>: reading \<open>parts\<close> of an absent content raises, and so does
  iterating an absent list.
\<close>

definition event_parts :: "event \<Rightarrow> error + genai_part list" where
  "event_parts ev =
     (case event_content ev of
        None \<Rightarrow> Inl (AttributeError (sq ''NoneType'' @ '' object has no attribute '' @ sq ''parts''))
      | Some c \<Rightarrow>
          (case content_parts c of
             None \<Rightarrow> Inl (TypeError (sq ''NoneType'' @ '' object is not iterable''))
           | Some ps \<Rightarrow> Inr ps))"

text \<open>Line 77: \<^verbatim>\<open>part.text or part.file_data or part.inline_data\<close>.\<close>

definition has_payload :: "genai_part \<Rightarrow> bool" where
  "has_payload p =
     (truthy_text (part_text p) \<or> truthy_obj (part_file_data p) \<or> truthy_obj (part_inline_data p))"

text \<open>The list comprehension of lines 74 to 78: the first conversion that raises ends it.\<close>

fun convert_all :: "genai_part list \<Rightarrow> error + a2a_part list" where
  "convert_all [] = Inr []"
| "convert_all (p # ps) =
     (case convert_genai_part_to_a2a p of
        Inl e \<Rightarrow> Inl e
      | Inr q \<Rightarrow> (case convert_all ps of Inl e \<Rightarrow> Inl e | Inr qs \<Rightarrow> Inr (q # qs)))"

text \<open>Lines 86 to 90: the texts of the parts whose text is true.\<close>

definition text_parts :: "genai_part list \<Rightarrow> string list" where
  "text_parts ps = concat (map (\<lambda>p. case part_text p of Some (c # cs) \<Rightarrow> [c # cs] | _ \<Rightarrow> []) ps)"

text \<open>
  The body of the loop for one event, lines 73 to 107: the exception it raises, or the calls
  it makes on the task updater and whether it leaves the loop (\<^verbatim>\<open>break\<close>).
\<close>

definition handle_event :: "event \<Rightarrow> error + sink_call list \<times> bool" where
  "handle_event ev =
     (if is_final_response ev then
        (case event_parts ev of
           Inl e \<Rightarrow> Inl e
         | Inr ps \<Rightarrow>
             (case convert_all (filter has_payload ps) of
                Inl e \<Rightarrow> Inl e
              | Inr qs \<Rightarrow>
                  Inr ((if qs \<noteq> [] then [Add_artifact (map PartItem qs)] else []) @
                       [Update_status completed None True], True)))
      else if \<not> has_function_calls ev then
        (case event_parts ev of
           Inl e \<Rightarrow> Inl e
         | Inr ps \<Rightarrow>
             (if text_parts ps \<noteq> [] then
                Inr ([Update_status working (Some [TextPart (concat (text_parts ps))]) False],
                     False)
              else Inr ([Add_artifact [TextArtifact ''stream'' ''.'']], False)))
      else Inr ([Update_status working None False], False))"

text \<open>
  The \<^verbatim>\<open>async for\<close> of lines 67 to 107 over a stream: the exception that left the loop,
  if any, and the calls made.
\<close>

fun consume :: "event list \<Rightarrow> stream_end \<Rightarrow> error option \<times> sink_call list" where
  "consume [] Exhausted = (None, [])"
| "consume [] (Raised e) = (Some e, [])"
| "consume (ev # evs) fin =
     (case handle_event ev of
        Inl e \<Rightarrow> (Some e, [])
      | Inr (calls, leave) \<Rightarrow>
          (if leave then (None, calls)
           else (case consume evs fin of (raised, later) \<Rightarrow> (raised, calls @ later))))"





section \<open>Concrete instances\<close>

text \<open>
  A routing agent with one registered agent, \<open>BudgetAgent\<close>, whose connection answers every
  request with a completed task; identifiers are numbered; the validation accepts a message
  whose identifiers are strings.
\<close>

definition sent_requests :: "effects \<Rightarrow> send_message_request list" where
  "sent_requests eff =
     concat (map (\<lambda>c. case c of RemoteSend conn req \<Rightarrow> [req] | TelemetryPost b d \<Rightarrow> [])
                 (network eff))"

fun is_str :: "pyval \<Rightarrow> bool" where
  "is_str (PStr s) = True"
| "is_str v = False"

definition ids_are_strings :: "message \<Rightarrow> bool" where
  "ids_are_strings m =
     (is_str (messageId m) \<and>
      (case taskId m of None \<Rightarrow> True | Some v \<Rightarrow> is_str v) \<and>
      (case contextId m of None \<Rightarrow> True | Some v \<Rightarrow> is_str v))"

definition budget_connection :: remote_agent_connection where
  "budget_connection = \<lparr>card_name = ''BudgetAgent'', agent_url = ''http://0.0.0.0:10007''\<rparr>"

definition stub_task :: pyval where
  "stub_task =
     PDict [(''id'', PStr ''t1''), (''contextId'', PStr ''c1''),
            (''status'', PDict [(''state'', PStr ''completed''), (''message'', PNone)]),
            (''artifacts'', PNone), (''kind'', PStr ''task'')]"

definition stub_uuid4 :: "nat \<Rightarrow> string" where
  "stub_uuid4 n = ''uuid-'' @ replicate n CHR ''x''"

definition stub_agent :: routing_agent where
  "stub_agent =
     \<lparr>remote_agent_connections = [''BudgetAgent'' \<mapsto> Some budget_connection],
      uuid4 = stub_uuid4,
      model_validate = ids_are_strings,
      remote_send = (\<lambda>conn req. Inr (SendMessageSuccessResponse (Task stub_task))),
      trace_id = None,
      telemetry_delivered = True,
      elapsed_seconds = PFloat 0.42\<rparr>"

definition no_effects :: effects where
  "no_effects = \<lparr>uuids_drawn = 0, network = []\<rparr>"


text \<open>
  Two successive calls on one session: the second runs on the state and the effects the
  first has left.
\<close>

definition send_message_twice ::
  "routing_agent \<Rightarrow> effects \<Rightarrow> string \<Rightarrow> string \<Rightarrow> string \<Rightarrow> string \<Rightarrow> state
     \<Rightarrow> (error + outcome) \<times> state \<times> effects" where
  "send_message_twice self eff agent1 task1 agent2 task2 st =
     (case send_message self eff agent1 task1 st of
        (r1, st1, eff1) \<Rightarrow> send_message self eff1 agent2 task2 st1)"

text \<open>The requests a call has sent: those in the log after it that were not there before.\<close>

definition new_requests :: "effects \<Rightarrow> effects \<Rightarrow> send_message_request list" where
  "new_requests eff eff' = drop (length (sent_requests eff)) (sent_requests eff')"

definition sent_context_ids :: "effects \<Rightarrow> pyval option list" where
  "sent_context_ids eff = map (\<lambda>req. contextId (params req)) (sent_requests eff)"

text \<open>The stub agent with a connection that fails, the text of the exception in capitals.\<close>

definition failing_agent :: routing_agent where
  "failing_agent =
     stub_agent\<lparr>remote_send := (\<lambda>conn req. Inl (Exception ''Connection TIMEOUT''))\<rparr>"

text \<open>
  Three more connections: one that fails with a text that names no timeout, one that
  answers with an error response, and one that answers with a plain message.
\<close>

definition unreachable_agent :: routing_agent where
  "unreachable_agent =
     stub_agent\<lparr>remote_send := (\<lambda>conn req. Inl (Exception ''Connection refused''))\<rparr>"

definition refusing_agent :: routing_agent where
  "refusing_agent =
     stub_agent\<lparr>remote_send := (\<lambda>conn req.
        Inr (JSONRPCErrorResponse (PDict [(''code'', PInt (- 32603))])))\<rparr>"

definition chatting_agent :: routing_agent where
  "chatting_agent =
     stub_agent\<lparr>remote_send := (\<lambda>conn req.
        Inr (SendMessageSuccessResponse (Message (PDict [(''role'', PStr ''agent'')]))))\<rparr>"

text \<open>The request the stub agents build for a task on a state without identifiers.\<close>

definition first_request :: "string \<Rightarrow> send_message_request" where
  "first_request task =
     \<lparr>request_id = PStr ''uuid-x'',
      params = \<lparr>role = ''user'',
                parts = [[(''type'', ''text''), (''text'', task)]],
                messageId = PStr ''uuid-x'', taskId = None,
                contextId = Some (PStr ''uuid-'')\<rparr>\<rparr>"

text \<open>
  The events of a stream that the loop handles and goes on from: the body raises nothing on
  them and does not leave the loop. \<open>forwarded\<close> is what the body calls on the task
  updater for a list of events.
\<close>

definition handled_without_leaving :: "event list \<Rightarrow> bool" where
  "handled_without_leaving evs =
     list_all (\<lambda>ev. case handle_event ev of Inl e \<Rightarrow> False | Inr (calls, leave) \<Rightarrow> \<not> leave)
       evs"

definition forwarded :: "event list \<Rightarrow> sink_call list" where
  "forwarded evs =
     concat (map (\<lambda>ev. case handle_event ev of Inl e \<Rightarrow> [] | Inr (calls, leave) \<Rightarrow> calls) evs)"





section \<open>Content conversion\<close>

text \<open>
  C4, as stated: every text part, also one with the empty text, comes back from the
  conversion to the internal representation and back. It does not: the internal part with
  the empty text fails the test \<^verbatim>\<open>if part.text:\<close> of the second converter, which then
  raises.
\<close>

theorem a2a_roundtrip_empty_text_counterexample:
  "a2a_roundtrip (TextPart []) =
     Inl (ValueError (''Unsupported GenAI part: '' @
            str_genai_part (Part\<lparr>part_text := Some []\<rparr>))) \<and>
   a2a_roundtrip (TextPart []) \<noteq> Inr (TextPart [])"
  by (simp add: a2a_roundtrip_def convert_genai_part_to_a2a_def Part_def)

text \<open>
  C4, amended: a text part whose text is not empty comes back with the same text; a file
  given by uri comes back with the same uri and mime type, and a file given by its bytes
  with the same bytes and mime type, whatever these values are (the name of the file is not
  carried over).
\<close>

theorem a2a_roundtrip_supported:
  "(t \<noteq> [] \<longrightarrow> a2a_roundtrip (TextPart t) = Inr (TextPart t)) \<and>
   a2a_roundtrip (FilePart (FileWithUri u m n)) = Inr (FilePart (FileWithUri u m None)) \<and>
   a2a_roundtrip (FilePart (FileWithBytes b m n)) = Inr (FilePart (FileWithBytes b m None))"
  by (cases t) (simp_all add: a2a_roundtrip_def convert_genai_part_to_a2a_def Part_def)

theorem a2a_roundtrip_supported_witness:
  "''Tokyo'' \<noteq> [] \<and> a2a_roundtrip (TextPart ''Tokyo'') = Inr (TextPart ''Tokyo'')"
  using a2a_roundtrip_supported [of "''Tokyo''"] by simp

text \<open>
  C9: a part outside the three supported variants makes the conversion raise a
  \<open>ValueError\<close> that names it, in both directions: the external data part, and an internal
  part that carries none of text, file data and inline data (also one whose three fields are
  all false). A converter returns a part or raises; it returns a part only for a supported
  variant.
\<close>

theorem unsupported_part_raises:
  "convert_a2a_part_to_genai (DataPart d) =
     Inl (ValueError ''Unsupported part type: <class 'a2a.types.DataPart'>'') \<and>
   (part_text p = None \<and> part_file_data p = None \<and> part_inline_data p = None \<longrightarrow>
      convert_genai_part_to_a2a p =
        Inl (ValueError (''Unsupported GenAI part: '' @ str_genai_part p))) \<and>
   (\<not> has_payload p \<longrightarrow>
      convert_genai_part_to_a2a p =
        Inl (ValueError (''Unsupported GenAI part: '' @ str_genai_part p))) \<and>
   ((\<exists>g. convert_a2a_part_to_genai q = Inr g) \<longleftrightarrow> (\<forall>d. q \<noteq> DataPart d))"
proof (intro conjI)
  show "convert_a2a_part_to_genai (DataPart d) =
          Inl (ValueError ''Unsupported part type: <class 'a2a.types.DataPart'>'')"
    by simp
  show "part_text p = None \<and> part_file_data p = None \<and> part_inline_data p = None \<longrightarrow>
          convert_genai_part_to_a2a p =
            Inl (ValueError (''Unsupported GenAI part: '' @ str_genai_part p))"
    by (simp add: convert_genai_part_to_a2a_def)
  show "\<not> has_payload p \<longrightarrow>
          convert_genai_part_to_a2a p =
            Inl (ValueError (''Unsupported GenAI part: '' @ str_genai_part p))"
    by (auto simp add: convert_genai_part_to_a2a_def has_payload_def truthy_text_def
          truthy_obj_def split: option.splits list.splits)
  show "(\<exists>g. convert_a2a_part_to_genai q = Inr g) \<longleftrightarrow> (\<forall>d. q \<noteq> DataPart d)"
    by (cases q rule: convert_a2a_part_to_genai.cases) simp_all
qed

theorem unsupported_part_raises_witness:
  "part_text (Part\<lparr>part_function_call := Some ''get_weather''\<rparr>) = None \<and>
   part_file_data (Part\<lparr>part_function_call := Some ''get_weather''\<rparr>) = None \<and>
   part_inline_data (Part\<lparr>part_function_call := Some ''get_weather''\<rparr>) = None \<and>
   \<not> has_payload (Part\<lparr>part_function_call := Some ''get_weather''\<rparr>) \<and>
   convert_genai_part_to_a2a (Part\<lparr>part_function_call := Some ''get_weather''\<rparr>) =
     Inl (ValueError (''Unsupported GenAI part: '' @
            str_genai_part (Part\<lparr>part_function_call := Some ''get_weather''\<rparr>)))"
  using unsupported_part_raises [of _ "Part\<lparr>part_function_call := Some ''get_weather''\<rparr>"]
  by (simp add: Part_def has_payload_def truthy_text_def truthy_obj_def)

section \<open>Strings: containment\<close>

lemma starts_with_iff: "starts_with s sub \<longleftrightarrow> (\<exists>ys. s = sub @ ys)"
  by (induction s sub rule: starts_with.induct) auto

lemma str_contains_iff: "str_contains s sub \<longleftrightarrow> (\<exists>xs ys. s = xs @ sub @ ys)"
proof (induction s)
  case Nil
  then show ?case by auto
next
  case (Cons c cs)
  show ?case
  proof
    assume "str_contains (c # cs) sub"
    then consider "starts_with (c # cs) sub" | "str_contains cs sub" by auto
    then show "\<exists>xs ys. c # cs = xs @ sub @ ys"
    proof cases
      case 1
      then obtain ys where "c # cs = sub @ ys" by (auto simp: starts_with_iff)
      then have "c # cs = [] @ sub @ ys" by simp
      then show ?thesis by blast
    next
      case 2
      then obtain xs ys where "cs = xs @ sub @ ys" using Cons.IH by blast
      then have "c # cs = (c # xs) @ sub @ ys" by simp
      then show ?thesis by blast
    qed
  next
    assume "\<exists>xs ys. c # cs = xs @ sub @ ys"
    then obtain xs ys where eq: "c # cs = xs @ sub @ ys" by blast
    show "str_contains (c # cs) sub"
    proof (cases xs)
      case Nil
      then have "starts_with (c # cs) sub" using eq by (auto simp: starts_with_iff)
      then show ?thesis by simp
    next
      case (Cons x xs')
      then have "cs = xs' @ sub @ ys" using eq by simp
      then have "str_contains cs sub" using Cons.IH by blast
      then show ?thesis by simp
    qed
  qed
qed

lemma str_contains_append: "str_contains (xs @ sub @ ys) sub"
  by (auto simp: str_contains_iff)

lemma str_contains_suffix: "str_contains (xs @ sub) sub"
  using str_contains_append [of xs sub "[]"] by simp

lemma str_contains_lower:
  "str_contains s sub \<Longrightarrow> str_contains (lower s) (lower sub)"
  unfolding str_contains_iff lower_def by (metis map_append)

lemma lower_timeout:
  "lower ''timeout'' = ''timeout''" "lower ''timed out'' = ''timed out''"
  by (simp_all add: lower_def lower_char_def)

lemma is_timeout_case_sensitive:
  "str_contains s ''timeout'' \<or> str_contains s ''timed out'' \<Longrightarrow> is_timeout s"
  unfolding is_timeout_def using str_contains_lower lower_timeout by metis

section \<open>\<open>send_message\<close>: the two halves\<close>

lemma prepare_unregistered:
  "remote_agent_connections self a = None \<Longrightarrow>
   send_message_prepare self eff a t st =
     (Inl (ValueError (''Agent '' @ a @ '' not found'')), st, eff)"
  by (simp add: send_message_prepare_def)

lemma prepare_registered:
  "send_message_prepare self eff a t st = (Inr (conn, req), st1, eff1) \<Longrightarrow>
   remote_agent_connections self a = Some (Some conn)"
  by (auto simp add: send_message_prepare_def Let_def
      split: option.splits sum.splits prod.splits if_splits)

lemma prepare_state:
  "remote_agent_connections self a = Some c \<Longrightarrow>
   fst (snd (send_message_prepare self eff a t st)) = st(''active_agent'' \<mapsto> PStr a)"
  by (simp add: send_message_prepare_def Let_def split: option.splits sum.splits prod.splits)

lemma prepare_network:
  "network (snd (snd (send_message_prepare self eff a t st))) = network eff"
  by (simp add: send_message_prepare_def Let_def split: option.splits sum.splits prod.splits)

lemma prepare_task_id_raises:
  "remote_agent_connections self a = Some (Some conn) \<Longrightarrow>
   truthy (state_get st ''task_id'') \<Longrightarrow>
   send_message_prepare self eff a t st =
     (Inl (UnboundLocalError
        ''cannot access local variable 'params_data' where it is not associated with a value''),
      st(''active_agent'' \<mapsto> PStr a), eff)"
  by (auto simp add: send_message_prepare_def Let_def state_get_def)

lemma prepare_context_id:
  "send_message_prepare self eff a t st = (Inr (conn, req), st1, eff1) \<Longrightarrow>
   contextId (params req) =
     (case st ''context_id'' of
        Some c \<Rightarrow> if truthy c then Some c else None
      | None \<Rightarrow> if uuid4 self (uuids_drawn eff) \<noteq> []
                then Some (PStr (uuid4 self (uuids_drawn eff))) else None)"
  by (auto simp add: send_message_prepare_def Let_def state_get_def resolve_context_id_def
      params_data_def split: option.splits sum.splits prod.splits if_splits)

lemma stub_prepare:
  "send_message_prepare stub_agent no_effects ''BudgetAgent'' task Map.empty =
     (Inr (budget_connection, first_request task),
      [''active_agent'' \<mapsto> PStr ''BudgetAgent''],
      \<lparr>uuids_drawn = 2, network = []\<rparr>)"
  by (simp add: send_message_prepare_def stub_agent_def no_effects_def state_get_def
      resolve_context_id_def input_message_id_def resolve_message_id_def params_data_def
      ids_are_strings_def stub_uuid4_def first_request_def Let_def numeral_2_eq_2)

lemma stub_prepare_variants:
  "send_message_prepare failing_agent no_effects ''BudgetAgent'' task Map.empty =
     (Inr (budget_connection, first_request task),
      [''active_agent'' \<mapsto> PStr ''BudgetAgent''],
      \<lparr>uuids_drawn = 2, network = []\<rparr>)"
  "send_message_prepare unreachable_agent no_effects ''BudgetAgent'' task Map.empty =
     (Inr (budget_connection, first_request task),
      [''active_agent'' \<mapsto> PStr ''BudgetAgent''],
      \<lparr>uuids_drawn = 2, network = []\<rparr>)"
  "send_message_prepare refusing_agent no_effects ''BudgetAgent'' task Map.empty =
     (Inr (budget_connection, first_request task),
      [''active_agent'' \<mapsto> PStr ''BudgetAgent''],
      \<lparr>uuids_drawn = 2, network = []\<rparr>)"
  "send_message_prepare chatting_agent no_effects ''BudgetAgent'' task Map.empty =
     (Inr (budget_connection, first_request task),
      [''active_agent'' \<mapsto> PStr ''BudgetAgent''],
      \<lparr>uuids_drawn = 2, network = []\<rparr>)"
  by (simp_all add: send_message_prepare_def failing_agent_def unreachable_agent_def
      refusing_agent_def chatting_agent_def stub_agent_def no_effects_def state_get_def
      resolve_context_id_def input_message_id_def resolve_message_id_def params_data_def
      ids_are_strings_def stub_uuid4_def first_request_def Let_def numeral_2_eq_2)

lemma send_message_state:
  "fst (snd (send_message self eff a t st)) = fst (snd (send_message_prepare self eff a t st))"
  by (simp add: send_message_def Let_def split: option.splits sum.splits prod.splits)

lemma send_message_raises:
  "send_message_prepare self eff a t st = (Inl e, st1, eff1) \<Longrightarrow>
   send_message self eff a t st = (Inl e, st1, eff1)"
  by (simp add: send_message_def)

lemma send_message_dispatches:
  "send_message_prepare self eff a t st = (Inr (conn, req), st1, eff1) \<Longrightarrow>
   send_message self eff a t st =
     (Inr (fst (send_message_dispatch self eff1 a conn req)), st1,
      snd (send_message_dispatch self eff1 a conn req))"
  by (simp add: send_message_def split: prod.splits)

lemma send_message_frame:
  "fst (snd (send_message self eff a t st)) = st \<or>
   fst (snd (send_message self eff a t st)) = st(''active_agent'' \<mapsto> PStr a)"
proof (cases "remote_agent_connections self a")
  case None
  then show ?thesis by (simp add: send_message_state send_message_prepare_def)
next
  case (Some c)
  then show ?thesis by (simp add: send_message_state prepare_state)
qed

lemma send_message_keeps_context_id:
  "fst (snd (send_message self eff a t st)) ''context_id'' = st ''context_id''"
  using send_message_frame [of self eff a t st] by auto

subsection \<open>The requests a call sends\<close>

lemma dispatch_sent:
  "sent_requests (snd (send_message_dispatch self eff a conn req)) = sent_requests eff @ [req]"
  by (simp add: send_message_dispatch_def sent_requests_def Let_def
      split: sum.splits send_message_response.splits send_result.splits)

lemma sent_requests_prepare:
  "sent_requests (snd (snd (send_message_prepare self eff a t st))) = sent_requests eff"
  by (simp add: sent_requests_def prepare_network)

lemma send_message_sent:
  "(\<exists>conn req st1 eff1.
      send_message_prepare self eff a t st = (Inr (conn, req), st1, eff1) \<and>
      sent_requests (snd (snd (send_message self eff a t st))) = sent_requests eff @ [req]) \<or>
   sent_requests (snd (snd (send_message self eff a t st))) = sent_requests eff"
proof (cases "send_message_prepare self eff a t st")
  case (fields r st1 eff1)
  have s: "sent_requests eff1 = sent_requests eff"
    using sent_requests_prepare [of self eff a t st] fields by simp
  show ?thesis
  proof (cases r)
    case (Inl e)
    then show ?thesis using fields s by (simp add: send_message_raises)
  next
    case (Inr cr)
    obtain conn req where cr: "cr = (conn, req)" by (cases cr)
    then show ?thesis using fields Inr s
      by (simp add: send_message_dispatches dispatch_sent)
  qed
qed

lemma new_requests_context_id:
  "\<forall>req \<in> set (new_requests eff (snd (snd (send_message self eff a t st)))).
     contextId (params req) =
       (case st ''context_id'' of
          Some c \<Rightarrow> if truthy c then Some c else None
        | None \<Rightarrow> if uuid4 self (uuids_drawn eff) \<noteq> []
                  then Some (PStr (uuid4 self (uuids_drawn eff))) else None)"
  using send_message_sent [of self eff a t st]
  by (auto simp add: new_requests_def dest: prepare_context_id)

lemma new_requests_twice:
  "set (new_requests eff (snd (snd (send_message_twice self eff a1 t1 a2 t2 st)))) \<subseteq>
     set (new_requests eff (snd (snd (send_message self eff a1 t1 st)))) \<union>
     set (new_requests (snd (snd (send_message self eff a1 t1 st)))
            (snd (snd (send_message_twice self eff a1 t1 a2 t2 st))))"
proof -
  obtain r1 st1 eff1 where c1: "send_message self eff a1 t1 st = (r1, st1, eff1)"
    by (cases "send_message self eff a1 t1 st")
  have tw: "send_message_twice self eff a1 t1 a2 t2 st = send_message self eff1 a2 t2 st1"
    by (simp add: send_message_twice_def c1)
  have "\<exists>xs. sent_requests eff1 = sent_requests eff @ xs"
    using send_message_sent [of self eff a1 t1 st] c1 by auto
  moreover have "\<exists>ys. sent_requests (snd (snd (send_message self eff1 a2 t2 st1))) =
                   sent_requests eff1 @ ys"
    using send_message_sent [of self eff1 a2 t2 st1] by auto
  ultimately show ?thesis
    by (auto simp add: tw c1 new_requests_def)
qed

section \<open>Delegation: \<open>send_message\<close>\<close>

text \<open>
  C1, as stated: delegating to a name that is not in the directory returns the outcome
  \<open>{status: "error", message: "Agent <name> not found"}\<close>. It does not: line 226 raises a
  \<open>ValueError\<close> with that text, and nothing is returned.
\<close>

theorem unknown_agent_counterexample:
  "send_message stub_agent no_effects ''UnknownAgent'' ''Plan a trip'' Map.empty =
     (Inl (ValueError ''Agent UnknownAgent not found''), Map.empty, no_effects) \<and>
   fst (send_message stub_agent no_effects ''UnknownAgent'' ''Plan a trip'' Map.empty) \<noteq>
     Inr [(''status'', PStr ''error''), (''message'', PStr ''Agent UnknownAgent not found'')]"
  by (simp add: send_message_def send_message_prepare_def stub_agent_def)

text \<open>
  C1, amended: for every session state and every agent name that is not in the directory,
  \<open>send_message\<close> raises \<open>ValueError\<close> with the text \<open>Agent <name> not found\<close>; the session
  state is as before and so are the effects: no network call is made and no identifier is
  drawn.
\<close>

theorem unknown_agent_raises:
  "remote_agent_connections self agent_name = None \<Longrightarrow>
   send_message self eff agent_name task st =
     (Inl (ValueError (''Agent '' @ agent_name @ '' not found'')), st, eff)"
  by (simp add: send_message_raises prepare_unregistered)

theorem unknown_agent_raises_witness:
  "remote_agent_connections stub_agent ''UnknownAgent'' = None \<and>
   send_message stub_agent no_effects ''UnknownAgent'' ''Plan a trip'' Map.empty =
     (Inl (ValueError ''Agent UnknownAgent not found''), Map.empty, no_effects)"
  using unknown_agent_raises [of stub_agent "''UnknownAgent''" no_effects "''Plan a trip''"
      Map.empty]
  by (simp add: stub_agent_def)

text \<open>
  C2: with an established \<open>task_id\<close> in the session state and the active agent as target,
  the call should complete and carry that \<open>taskId\<close>. On the state
  \<open>{task_id: "t1", active_agent: "BudgetAgent"}\<close> the call to \<open>BudgetAgent\<close> raises
  \<open>UnboundLocalError\<close> instead (line 236 reads \<open>params_data\<close> before line 252 assigns it),
  and no message is sent.
\<close>

theorem task_id_resume_raises:
  "fst (send_message stub_agent no_effects ''BudgetAgent'' ''Add a day in Kyoto''
          [''task_id'' \<mapsto> PStr ''t1'', ''active_agent'' \<mapsto> PStr ''BudgetAgent'']) =
     Inl (UnboundLocalError
       ''cannot access local variable 'params_data' where it is not associated with a value'') \<and>
   network (snd (snd (send_message stub_agent no_effects ''BudgetAgent'' ''Add a day in Kyoto''
          [''task_id'' \<mapsto> PStr ''t1'', ''active_agent'' \<mapsto> PStr ''BudgetAgent'']))) = []"
  by (simp add: send_message_def send_message_prepare_def stub_agent_def state_get_def
      no_effects_def)

text \<open>
  C3, as stated: two successive calls on the same session state use the same \<open>contextId\<close>.
  They do not when the state holds no \<open>context_id\<close>: each call draws a new identifier and
  the state holds none afterwards.
\<close>

theorem context_id_counterexample:
  "sent_context_ids (snd (snd (send_message_twice stub_agent no_effects
      ''BudgetAgent'' ''Estimate Tokyo'' ''BudgetAgent'' ''Add Kyoto'' Map.empty))) =
     [Some (PStr ''uuid-''), Some (PStr ''uuid-xx'')] \<and>
   distinct (sent_context_ids (snd (snd (send_message_twice stub_agent no_effects
      ''BudgetAgent'' ''Estimate Tokyo'' ''BudgetAgent'' ''Add Kyoto'' Map.empty)))) \<and>
   fst (snd (send_message_twice stub_agent no_effects
      ''BudgetAgent'' ''Estimate Tokyo'' ''BudgetAgent'' ''Add Kyoto'' Map.empty))
     ''context_id'' = None"
  by (simp add: send_message_twice_def send_message_def send_message_prepare_def
      send_message_dispatch_def stub_agent_def no_effects_def state_get_def
      resolve_context_id_def input_message_id_def resolve_message_id_def params_data_def
      ids_are_strings_def stub_uuid4_def Let_def sent_context_ids_def sent_requests_def)

text \<open>
  C3, amended: \<open>send_message\<close> never writes \<open>context_id\<close>, so after two successive calls
  the session state holds the \<open>context_id\<close> it held before. When the state holds one, every
  message the two calls send carries it as \<open>contextId\<close> (none when the value is false), so
  both calls use the same one. When the state holds none, it still holds none after a call,
  and the message of that call carries the identifier drawn for it.
\<close>

theorem context_id_from_state:
  "fst (snd (send_message_twice self eff agent1 task1 agent2 task2 st)) ''context_id'' =
     st ''context_id'' \<and>
   (\<forall>c. st ''context_id'' = Some c \<longrightarrow>
      (\<forall>req \<in> set (new_requests eff
                      (snd (snd (send_message_twice self eff agent1 task1 agent2 task2 st)))).
         contextId (params req) = (if truthy c then Some c else None))) \<and>
   (st ''context_id'' = None \<longrightarrow>
      fst (snd (send_message self eff agent1 task1 st)) ''context_id'' = None \<and>
      (\<forall>req \<in> set (new_requests eff (snd (snd (send_message self eff agent1 task1 st)))).
         contextId (params req) =
           (if uuid4 self (uuids_drawn eff) \<noteq> []
            then Some (PStr (uuid4 self (uuids_drawn eff))) else None)))"
proof -
  obtain r1 st1 eff1 where c1: "send_message self eff agent1 task1 st = (r1, st1, eff1)"
    by (cases "send_message self eff agent1 task1 st")
  have tw: "send_message_twice self eff agent1 task1 agent2 task2 st =
              send_message self eff1 agent2 task2 st1"
    by (simp add: send_message_twice_def c1)
  have k1: "st1 ''context_id'' = st ''context_id''"
    using send_message_keeps_context_id [of self eff agent1 task1 st] c1 by simp
  have k2: "fst (snd (send_message self eff1 agent2 task2 st1)) ''context_id'' =
              st ''context_id''"
    using send_message_keeps_context_id [of self eff1 agent2 task2 st1] k1 by simp
  have n1: "\<forall>req \<in> set (new_requests eff eff1).
     contextId (params req) =
       (case st ''context_id'' of
          Some c \<Rightarrow> if truthy c then Some c else None
        | None \<Rightarrow> if uuid4 self (uuids_drawn eff) \<noteq> []
                  then Some (PStr (uuid4 self (uuids_drawn eff))) else None)"
    using new_requests_context_id [of eff self agent1 task1 st] c1 by simp
  have n2: "\<forall>req \<in> set (new_requests eff1
                          (snd (snd (send_message self eff1 agent2 task2 st1)))).
     contextId (params req) =
       (case st ''context_id'' of
          Some c \<Rightarrow> if truthy c then Some c else None
        | None \<Rightarrow> if uuid4 self (uuids_drawn eff1) \<noteq> []
                  then Some (PStr (uuid4 self (uuids_drawn eff1))) else None)"
    using new_requests_context_id [of eff1 self agent2 task2 st1] k1 by simp
  have sub: "set (new_requests eff (snd (snd (send_message self eff1 agent2 task2 st1)))) \<subseteq>
     set (new_requests eff eff1) \<union>
     set (new_requests eff1 (snd (snd (send_message self eff1 agent2 task2 st1))))"
    using new_requests_twice [of eff self agent1 task1 agent2 task2 st] tw c1 by simp
  have a: "\<forall>c. st ''context_id'' = Some c \<longrightarrow>
      (\<forall>req \<in> set (new_requests eff (snd (snd (send_message self eff1 agent2 task2 st1)))).
         contextId (params req) = (if truthy c then Some c else None))"
  proof (intro allI impI ballI)
    fix c req
    assume c: "st ''context_id'' = Some c"
      and r: "req \<in> set (new_requests eff
                            (snd (snd (send_message self eff1 agent2 task2 st1))))"
    from r sub consider "req \<in> set (new_requests eff eff1)"
      | "req \<in> set (new_requests eff1 (snd (snd (send_message self eff1 agent2 task2 st1))))"
      by blast
    then show "contextId (params req) = (if truthy c then Some c else None)"
    proof cases
      case 1
      then show ?thesis using n1 c by simp
    next
      case 2
      then show ?thesis using n2 c by simp
    qed
  qed
  show ?thesis
    using k1 k2 n1 a by (simp add: tw c1)
qed

theorem context_id_from_state_witness:
  "[''context_id'' \<mapsto> PStr ''ctx-1''] ''context_id'' = Some (PStr ''ctx-1'') \<and>
   sent_context_ids (snd (snd (send_message_twice stub_agent no_effects
        ''BudgetAgent'' ''Estimate Tokyo'' ''BudgetAgent'' ''Add Kyoto''
        [''context_id'' \<mapsto> PStr ''ctx-1'']))) =
     [Some (PStr ''ctx-1''), Some (PStr ''ctx-1'')] \<and>
   fst (snd (send_message_twice stub_agent no_effects
        ''BudgetAgent'' ''Estimate Tokyo'' ''BudgetAgent'' ''Add Kyoto''
        [''context_id'' \<mapsto> PStr ''ctx-1''])) ''context_id'' = Some (PStr ''ctx-1'') \<and>
   Map.empty ''context_id'' = (None :: pyval option) \<and>
   fst (snd (send_message stub_agent no_effects ''BudgetAgent'' ''Estimate Tokyo'' Map.empty))
     ''context_id'' = None"
proof -
  have e: "sent_context_ids (snd (snd (send_message_twice stub_agent no_effects
        ''BudgetAgent'' ''Estimate Tokyo'' ''BudgetAgent'' ''Add Kyoto''
        [''context_id'' \<mapsto> PStr ''ctx-1'']))) =
     [Some (PStr ''ctx-1''), Some (PStr ''ctx-1'')]"
    by (simp add: send_message_twice_def send_message_def send_message_prepare_def
        send_message_dispatch_def stub_agent_def no_effects_def state_get_def
        resolve_context_id_def input_message_id_def resolve_message_id_def params_data_def
        ids_are_strings_def stub_uuid4_def Let_def sent_context_ids_def sent_requests_def)
  show ?thesis
    using e
      context_id_from_state [of stub_agent no_effects "''BudgetAgent''" "''Estimate Tokyo''"
        "''BudgetAgent''" "''Add Kyoto''" "[''context_id'' \<mapsto> PStr ''ctx-1'']"]
      context_id_from_state [of stub_agent no_effects "''BudgetAgent''" "''Estimate Tokyo''"
        "''BudgetAgent''" "''Add Kyoto''" Map.empty]
    by simp
qed

text \<open>
  C6: for a name that is in the directory, the session state after \<open>send_message\<close> has
  \<open>active_agent\<close> equal to that name, whatever the call returns or raises. The state holds
  it already at the point where the request is about to be sent, and no network call has
  been made up to that point.
\<close>

theorem active_agent_set_before_dispatch:
  "remote_agent_connections self agent_name \<noteq> None \<Longrightarrow>
   fst (snd (send_message self eff agent_name task st)) ''active_agent'' =
     Some (PStr agent_name) \<and>
   fst (snd (send_message_prepare self eff agent_name task st)) ''active_agent'' =
     Some (PStr agent_name) \<and>
   network (snd (snd (send_message_prepare self eff agent_name task st))) = network eff"
  by (auto simp add: send_message_state prepare_state prepare_network)

theorem active_agent_set_before_dispatch_witness:
  "remote_agent_connections failing_agent ''BudgetAgent'' \<noteq> None \<and>
   fst (snd (send_message failing_agent no_effects ''BudgetAgent'' ''Plan a trip''
               [''active_agent'' \<mapsto> PStr ''TravelAgent''])) ''active_agent'' =
     Some (PStr ''BudgetAgent'')"
  using active_agent_set_before_dispatch [of failing_agent "''BudgetAgent''" no_effects
      "''Plan a trip''" "[''active_agent'' \<mapsto> PStr ''TravelAgent'']"]
  by (simp add: failing_agent_def stub_agent_def)



text \<open>
  C8, as stated: an exception of the remote call whose text contains neither \<open>timeout\<close>
  nor \<open>timed out\<close> gives an outcome whose message contains the text of the exception. It
  does not for the text \<open>Connection TIMEOUT\<close>: line 281 tests the text in lower case, so
  the outcome is the one for a timeout, and its message does not contain the text.
\<close>

theorem transport_error_counterexample:
  "\<not> str_contains ''Connection TIMEOUT'' ''timeout'' \<and>
   \<not> str_contains ''Connection TIMEOUT'' ''timed out'' \<and>
   fst (send_message failing_agent no_effects ''BudgetAgent'' ''Plan a trip'' Map.empty) =
     Inr [(''status'', PStr ''error''),
          (''message'', PStr
             ''Request to BudgetAgent timed out. Please ensure the agent is running and try again.''),
          (''agent_name'', PStr ''BudgetAgent'')] \<and>
   \<not> str_contains
       ''Request to BudgetAgent timed out. Please ensure the agent is running and try again.''
       ''Connection TIMEOUT''"
proof (intro conjI)
  show "\<not> str_contains ''Connection TIMEOUT'' ''timeout''" by simp
  show "\<not> str_contains ''Connection TIMEOUT'' ''timed out''" by simp
  show "fst (send_message failing_agent no_effects ''BudgetAgent'' ''Plan a trip'' Map.empty) =
     Inr [(''status'', PStr ''error''),
          (''message'', PStr
             ''Request to BudgetAgent timed out. Please ensure the agent is running and try again.''),
          (''agent_name'', PStr ''BudgetAgent'')]"
    by (simp add: send_message_def send_message_prepare_def send_message_dispatch_def
        failing_agent_def stub_agent_def no_effects_def state_get_def resolve_context_id_def
        input_message_id_def resolve_message_id_def params_data_def ids_are_strings_def
        stub_uuid4_def is_timeout_def lower_def lower_char_def Let_def)
  show "\<not> str_contains
       ''Request to BudgetAgent timed out. Please ensure the agent is running and try again.''
       ''Connection TIMEOUT''"
    by simp
qed

text \<open>
  C8, amended: for every exception raised by the remote call, if its text in lower case
  contains \<open>timeout\<close> or \<open>timed out\<close> (so whenever the text itself does), the result is the
  outcome with status \<open>error\<close>, the agent name and a message that contains \<open>timed out\<close>;
  otherwise it is the outcome with status \<open>error\<close>, the agent name and a message that
  contains the text of the exception. In both cases \<open>send_message\<close> returns an outcome: the
  exception is not raised again.
\<close>

theorem transport_error_outcome:
  assumes "send_message_prepare self eff agent_name task st = (Inr (conn, req), st1, eff1)"
    and "remote_send self conn req = Inl e"
  shows "(is_timeout (str_error e) \<longrightarrow>
            fst (send_message self eff agent_name task st) =
              Inr [(''status'', PStr ''error''),
                   (''message'', PStr (''Request to '' @ agent_name @
                      '' timed out. Please ensure the agent is running and try again.'')),
                   (''agent_name'', PStr agent_name)] \<and>
            str_contains (''Request to '' @ agent_name @
                      '' timed out. Please ensure the agent is running and try again.'')
              ''timed out'') \<and>
         (\<not> is_timeout (str_error e) \<longrightarrow>
            fst (send_message self eff agent_name task st) =
              Inr [(''status'', PStr ''error''),
                   (''message'', PStr (''Failed to communicate with '' @ agent_name @ '': '' @
                      str_error e)),
                   (''agent_name'', PStr agent_name)] \<and>
            str_contains (''Failed to communicate with '' @ agent_name @ '': '' @ str_error e)
              (str_error e)) \<and>
         (str_contains (str_error e) ''timeout'' \<or> str_contains (str_error e) ''timed out''
            \<longrightarrow> is_timeout (str_error e)) \<and>
         (\<exists>out. fst (send_message self eff agent_name task st) = Inr out)"
proof -
  have c1: "str_contains (''Request to '' @ agent_name @
                      '' timed out. Please ensure the agent is running and try again.'')
              ''timed out''"
    using str_contains_append [of "''Request to '' @ agent_name @ '' ''" "''timed out''"
        "''. Please ensure the agent is running and try again.''"]
    by simp
  have c2: "str_contains (''Failed to communicate with '' @ agent_name @ '': '' @ str_error e)
              (str_error e)"
    using str_contains_suffix [of "''Failed to communicate with '' @ agent_name @ '': ''"
        "str_error e"]
    by simp
  show ?thesis
    using assms c1 c2 is_timeout_case_sensitive [of "str_error e"]
    by (simp add: send_message_dispatches send_message_dispatch_def Let_def)
qed

theorem transport_error_outcome_witness:
  "send_message_prepare failing_agent no_effects ''BudgetAgent'' ''Plan a trip'' Map.empty =
     (Inr (budget_connection, first_request ''Plan a trip''),
      [''active_agent'' \<mapsto> PStr ''BudgetAgent''],
      \<lparr>uuids_drawn = 2, network = []\<rparr>) \<and>
   is_timeout (str_error (Exception ''Connection TIMEOUT'')) \<and>
   fst (send_message failing_agent no_effects ''BudgetAgent'' ''Plan a trip'' Map.empty) =
     Inr [(''status'', PStr ''error''),
          (''message'', PStr
             ''Request to BudgetAgent timed out. Please ensure the agent is running and try again.''),
          (''agent_name'', PStr ''BudgetAgent'')] \<and>
   \<not> is_timeout (str_error (Exception ''Connection refused'')) \<and>
   fst (send_message unreachable_agent no_effects ''BudgetAgent'' ''Plan a trip'' Map.empty) =
     Inr [(''status'', PStr ''error''),
          (''message'', PStr ''Failed to communicate with BudgetAgent: Connection refused''),
          (''agent_name'', PStr ''BudgetAgent'')]"
proof -
  have p: "send_message_prepare failing_agent no_effects ''BudgetAgent'' ''Plan a trip''
             Map.empty =
     (Inr (budget_connection, first_request ''Plan a trip''),
      [''active_agent'' \<mapsto> PStr ''BudgetAgent''],
      \<lparr>uuids_drawn = 2, network = []\<rparr>)"
    by (simp add: stub_prepare_variants)
  have p2: "send_message_prepare unreachable_agent no_effects ''BudgetAgent'' ''Plan a trip''
             Map.empty =
     (Inr (budget_connection, first_request ''Plan a trip''),
      [''active_agent'' \<mapsto> PStr ''BudgetAgent''],
      \<lparr>uuids_drawn = 2, network = []\<rparr>)"
    by (simp add: stub_prepare_variants)
  have r: "remote_send failing_agent budget_connection (first_request ''Plan a trip'') =
             Inl (Exception ''Connection TIMEOUT'')"
    by (simp add: failing_agent_def)
  have r2: "remote_send unreachable_agent budget_connection (first_request ''Plan a trip'') =
             Inl (Exception ''Connection refused'')"
    by (simp add: unreachable_agent_def)
  have t: "is_timeout (str_error (Exception ''Connection TIMEOUT''))"
    by (simp add: is_timeout_def lower_def lower_char_def)
  have t2: "\<not> is_timeout (str_error (Exception ''Connection refused''))"
    by (simp add: is_timeout_def lower_def lower_char_def)
  show ?thesis
    using p t t2 transport_error_outcome [OF p r] transport_error_outcome [OF p2 r2]
    by simp
qed

text \<open>
  C10: a call of \<open>send_message\<close> that gets as far as sending the request leaves the session
  state as it was except for the key \<open>active_agent\<close>, which holds the agent name: every
  other key has its value of before. In particular a context identifier drawn during the
  call is not in the state afterwards, and no message identifier is stored:
  \<open>input_message_metadata\<close> is as before.
\<close>

theorem only_active_agent_written:
  assumes "send_message_prepare self eff agent_name task st = (Inr (conn, req), st1, eff1)"
  shows "fst (snd (send_message self eff agent_name task st)) =
           st(''active_agent'' \<mapsto> PStr agent_name) \<and>
         (\<forall>k. k \<noteq> ''active_agent'' \<longrightarrow>
            fst (snd (send_message self eff agent_name task st)) k = st k) \<and>
         (st ''context_id'' = None \<longrightarrow>
            fst (snd (send_message self eff agent_name task st)) ''context_id'' = None) \<and>
         fst (snd (send_message self eff agent_name task st)) ''input_message_metadata'' =
           st ''input_message_metadata''"
proof -
  have "remote_agent_connections self agent_name = Some (Some conn)"
    using assms by (rule prepare_registered)
  then have "fst (snd (send_message self eff agent_name task st)) =
           st(''active_agent'' \<mapsto> PStr agent_name)"
    by (simp add: send_message_state prepare_state)
  then show ?thesis by simp
qed

theorem only_active_agent_written_witness:
  "send_message_prepare stub_agent no_effects ''BudgetAgent'' ''Plan a trip'' Map.empty =
     (Inr (budget_connection, first_request ''Plan a trip''),
      [''active_agent'' \<mapsto> PStr ''BudgetAgent''],
      \<lparr>uuids_drawn = 2, network = []\<rparr>) \<and>
   contextId (params (first_request ''Plan a trip'')) = Some (PStr ''uuid-'') \<and>
   fst (snd (send_message stub_agent no_effects ''BudgetAgent'' ''Plan a trip'' Map.empty)) =
     [''active_agent'' \<mapsto> PStr ''BudgetAgent''] \<and>
   fst (snd (send_message stub_agent no_effects ''BudgetAgent'' ''Plan a trip'' Map.empty))
     ''context_id'' = None"
proof -
  have p: "send_message_prepare stub_agent no_effects ''BudgetAgent'' ''Plan a trip''
             Map.empty =
     (Inr (budget_connection, first_request ''Plan a trip''),
      [''active_agent'' \<mapsto> PStr ''BudgetAgent''],
      \<lparr>uuids_drawn = 2, network = []\<rparr>)"
    by (rule stub_prepare)
  show ?thesis
    using p only_active_agent_written [OF p] by (simp add: first_request_def)
qed

section \<open>The streaming executor: failure and cleanup\<close>



subsection \<open>How the loop ends\<close>

lemma consume_prefix:
  "handled_without_leaving pre \<Longrightarrow>
   consume (pre @ rest) fin =
     (fst (consume rest fin), forwarded pre @ snd (consume rest fin))"
proof (induction pre)
  case Nil
  then show ?case by (simp add: forwarded_def)
next
  case (Cons ev pre)
  from Cons.prems obtain calls where h: "handle_event ev = Inr (calls, False)"
    and p: "handled_without_leaving pre"
    by (auto simp add: handled_without_leaving_def split: sum.splits prod.splits)
  have f: "forwarded (ev # pre) = calls @ forwarded pre"
    using h by (simp add: forwarded_def)
  show ?case
    using Cons.IH [OF p] h f by simp
qed



lemma consume_exhausted:
  "handled_without_leaving evs \<Longrightarrow> consume evs Exhausted = (None, forwarded evs)"
  using consume_prefix [of evs "[]" Exhausted] by simp

lemma consume_final:
  "handled_without_leaving pre \<Longrightarrow> handle_event ev = Inr (calls, True) \<Longrightarrow>
   consume (pre @ ev # post) fin = (None, forwarded pre @ calls)"
  by (simp add: consume_prefix)

text \<open>
  An exception leaves the loop in two ways only: the body raises it on an event, or the
  runner raises it, in both cases after events that were handled without leaving.
\<close>

lemma consume_raises_cases:
  "fst (consume evs fin) = Some e \<Longrightarrow>
   (handled_without_leaving evs \<and> fin = Raised e) \<or>
   (\<exists>pre ev post. evs = pre @ ev # post \<and> handled_without_leaving pre \<and>
      handle_event ev = Inl e)"
proof (induction evs)
  case Nil
  then show ?case by (cases fin) (simp_all add: handled_without_leaving_def)
next
  case (Cons ev evs)
  show ?case
  proof (cases "handle_event ev")
    case (Inl e')
    then have "e' = e" using Cons.prems by simp
    then have "ev # evs = [] @ ev # evs \<and> handled_without_leaving [] \<and> handle_event ev = Inl e"
      using Inl by (simp add: handled_without_leaving_def)
    then show ?thesis by blast
  next
    case (Inr cl)
    obtain calls leave where cl: "cl = (calls, leave)" by (cases cl)
    have nl: "\<not> leave" using Cons.prems Inr cl by (auto split: if_splits)
    then have rest: "fst (consume evs fin) = Some e"
      using Cons.prems Inr cl by (simp split: prod.splits)
    have one: "handled_without_leaving [ev]"
      using Inr cl nl by (simp add: handled_without_leaving_def)
    from Cons.IH [OF rest] show ?thesis
    proof
      assume "handled_without_leaving evs \<and> fin = Raised e"
      then show ?thesis using one by (simp add: handled_without_leaving_def)
    next
      assume "\<exists>pre ev' post. evs = pre @ ev' # post \<and> handled_without_leaving pre \<and>
                handle_event ev' = Inl e"
      then obtain pre ev' post where "evs = pre @ ev' # post" "handled_without_leaving pre"
        "handle_event ev' = Inl e" by blast
      then have "ev # evs = (ev # pre) @ ev' # post \<and> handled_without_leaving (ev # pre) \<and>
                   handle_event ev' = Inl e"
        using one by (simp add: handled_without_leaving_def)
      then show ?thesis by blast
    qed
  qed
qed




end
